theory Spec2Isabelle
  imports Complex_Main "HOL-Library.Sublist"
begin

section \<open>JavaScript numbers and optional fields\<close>

text \<open>
  The handlers of \<^verbatim>\<open>src/tools/recovery.ts\<close>, \<^verbatim>\<open>src/tools/sleep.ts\<close> and of the strain
  tool read loosely typed JSON. A numeric field that is \<^verbatim>\<open>undefined\<close> or \<^verbatim>\<open>null\<close> is
  \<open>None\<close>; \<^verbatim>\<open>x == null\<close> is \<open>x = None\<close>. A JavaScript number is a binary64 value and is
  modelled by the real number it denotes. Comparisons of two numbers are exact. Every
  arithmetic operation returns the exact result rounded to the nearest binary64 value,
  a tie going to the even significand. The exponent range of binary64 (overflow to
  \<^verbatim>\<open>Infinity\<close> above about 1.8e308, gradual underflow below about 2.2e-308) and the sign
  of zero are not modelled.
\<close>

text \<open>Rounding to the nearest integer, a tie going to the even one.\<close>

definition rne :: "real \<Rightarrow> int" where
  "rne y = (let f = \<lfloor>y\<rfloor>; d = y - real_of_int f in
            if d < 1 / 2 then f else if 1 / 2 < d then f + 1
            else if even f then f else f + 1)"

text \<open>The binary exponent \<open>e\<close> of a non-zero number: \<open>2 powi e \<le> \<bar>x\<bar> < 2 powi (e + 1)\<close>.\<close>

definition expo :: "real \<Rightarrow> int" where
  "expo x = (if x = 0 then 0 else \<lfloor>log 2 \<bar>x\<bar>\<rfloor>)"

text \<open>
  Rounding to binary64: a significand of 53 bits, so the result is the nearest multiple
  of \<open>2 powi (e - 52)\<close>.
\<close>

definition fl :: "real \<Rightarrow> real" where
  "fl x = (if x = 0 then 0
           else real_of_int (rne (x / 2 powi (expo x - 52))) * 2 powi (expo x - 52))"

text \<open>The operators \<^verbatim>\<open>+\<close>, \<^verbatim>\<open>-\<close>, \<^verbatim>\<open>*\<close> and \<^verbatim>\<open>/\<close> on numbers.\<close>

definition fadd :: "real \<Rightarrow> real \<Rightarrow> real" where
  "fadd x y = fl (x + y)"

definition fsub :: "real \<Rightarrow> real \<Rightarrow> real" where
  "fsub x y = fl (x - y)"

definition fmul :: "real \<Rightarrow> real \<Rightarrow> real" where
  "fmul x y = fl (x * y)"

text \<open>Every divisor in the handlers is tested or built to be non-zero before it is used.\<close>

definition fdiv :: "real \<Rightarrow> real \<Rightarrow> real" where
  "fdiv x y = fl (x / y)"

text \<open>\<^verbatim>\<open>x || 0\<close> on an optional number: absent, null and 0 all give 0.\<close>

definition orZero :: "real option \<Rightarrow> real" where
  "orZero x = (case x of None \<Rightarrow> 0 | Some v \<Rightarrow> (if v = 0 then 0 else v))"


text \<open>Truthiness of an optional number, as \<^verbatim>\<open>filter(r => r.score?.hrv_rmssd_milli)\<close> tests it.\<close>

definition truthy :: "real option \<Rightarrow> bool" where
  "truthy x = (case x of None \<Rightarrow> False | Some v \<Rightarrow> v \<noteq> 0)"

text \<open>
  \<^verbatim>\<open>Math.round\<close>: the nearest integer, a tie going up. It is exact on a binary64 value,
  and the integer it returns is a number again (\<open>real_of_int\<close>).
\<close>

definition jsRound :: "real \<Rightarrow> int" where
  "jsRound x = \<lfloor>x + 1 / 2\<rfloor>"

section \<open>Daily records\<close>

text \<open>
  A daily record carries a timestamp (\<^verbatim>\<open>created_at\<close> of a recovery, \<^verbatim>\<open>start\<close> of a sleep
  or a cycle) and a \<^verbatim>\<open>score\<close> object that may be missing as a whole.
\<close>

record 's dailyRecord =
  timestamp :: string
  score :: "'s option"

record recoveryScore =
  recovery_score :: "real option"
  hrv_rmssd_milli :: "real option"
  resting_heart_rate :: "real option"
  spo2_percentage :: "real option"
  skin_temp_celsius :: "real option"

record stageSummary =
  total_in_bed_time_milli :: "real option"
  total_awake_time_milli :: "real option"
  total_light_sleep_time_milli :: "real option"
  total_slow_wave_sleep_time_milli :: "real option"
  total_rem_sleep_time_milli :: "real option"

record sleepScore =
  stage_summary :: "stageSummary option"
  sleep_performance_percentage :: "real option"
  sleep_efficiency_percentage :: "real option"
  sleep_consistency_percentage :: "real option"

record cycleScore =
  strain :: "real option"

text \<open>\<^verbatim>\<open>rec.score || {}\<close> and \<^verbatim>\<open>s.stage_summary || {}\<close>: the empty object has no field.\<close>

definition noRecoveryScore :: recoveryScore where
  "noRecoveryScore = \<lparr>recovery_score = None, hrv_rmssd_milli = None,
     resting_heart_rate = None, spo2_percentage = None, skin_temp_celsius = None\<rparr>"

definition noStageSummary :: stageSummary where
  "noStageSummary = \<lparr>total_in_bed_time_milli = None, total_awake_time_milli = None,
     total_light_sleep_time_milli = None, total_slow_wave_sleep_time_milli = None,
     total_rem_sleep_time_milli = None\<rparr>"

definition noSleepScore :: sleepScore where
  "noSleepScore = \<lparr>stage_summary = None, sleep_performance_percentage = None,
     sleep_efficiency_percentage = None, sleep_consistency_percentage = None\<rparr>"

definition noCycleScore :: cycleScore where
  "noCycleScore = \<lparr>strain = None\<rparr>"

definition scoreOr :: "'s \<Rightarrow> 's dailyRecord \<Rightarrow> 's" where
  "scoreOr dflt rec = (case score rec of None \<Rightarrow> dflt | Some s \<Rightarrow> s)"

definition stagesOr :: "sleepScore \<Rightarrow> stageSummary" where
  "stagesOr s = (case stage_summary s of None \<Rightarrow> noStageSummary | Some st \<Rightarrow> st)"

section \<open>Tool output\<close>

text \<open>
  A handler returns one text block. The model keeps its structure: either a one-line
  informational message, or a trend report made of the numbers of the summary lines and
  of the list \<^verbatim>\<open>patterns\<close>; the section \<^verbatim>\<open>Patterns:\<close> is printed when that list is not
  empty. Each pattern is its message template with the substituted numbers. Dates and
  the daily lines are string rendering and are left out.
\<close>

datatype pattern =
    LowRecoveryCount nat nat
      \<comment> \<open>\<^verbatim>\<open>Recovery below 50% on ${lowDays} of ${count} days\<close>\<close>
  | HrvDown real real
      \<comment> \<open>\<^verbatim>\<open>HRV trending down: earlier avg ${avgFirst} -> recent ${avgSecond}\<close>\<close>
  | HrvUp real real
      \<comment> \<open>\<^verbatim>\<open>HRV trending up: earlier avg ${avgFirst} -> recent ${avgSecond}\<close>\<close>
  | ConsecLow nat
      \<comment> \<open>\<^verbatim>\<open>${maxConsecLow} consecutive days below 50% recovery.\<close>\<close>
  | LowSleepPerf nat nat
      \<comment> \<open>\<^verbatim>\<open>Sleep performance below 70% on ${lowPerfDays} of ${count} nights.\<close>\<close>
  | DeepSleepDeficit int
      \<comment> \<open>\<^verbatim>\<open>Deep sleep averaging only ${avgDeepPct}%\<close>\<close>
  | HighStrainStreak nat
      \<comment> \<open>\<^verbatim>\<open>${maxConsecHigh} consecutive high-strain days (>14).\<close>\<close>
  | NoRestDays
      \<comment> \<open>\<^verbatim>\<open>No rest days in this period.\<close>\<close>

datatype 'a toolOutput = Message string | Report 'a "pattern list"

fun patternsOf :: "'a toolOutput \<Rightarrow> pattern list" where
  "patternsOf (Message m) = []"
| "patternsOf (Report s ps) = ps"

section \<open>Streak loop\<close>

text \<open>
  Both streak rules run the same loop, here with the test as a parameter:
  \<^verbatim>\<open>
  let maxConsec = 0, consec = 0;
  for (const s of xs) {
    if (test(s)) { consec++; maxConsec = Math.max(maxConsec, consec); }
    else consec = 0;
  }
  \<close>
  The state is the pair \<open>(maxConsec, consec)\<close>.
\<close>

fun consecLoop :: "(real \<Rightarrow> bool) \<Rightarrow> real list \<Rightarrow> nat \<times> nat \<Rightarrow> nat \<times> nat" where
  "consecLoop test [] (maxConsec, consec) = (maxConsec, consec)"
| "consecLoop test (s # rest) (maxConsec, consec) =
     (if test s then consecLoop test rest (max maxConsec (consec + 1), consec + 1)
      else consecLoop test rest (maxConsec, 0))"

definition maxConsec :: "(real \<Rightarrow> bool) \<Rightarrow> real list \<Rightarrow> nat" where
  "maxConsec test xs = fst (consecLoop test xs (0, 0))"

section \<open>Recovery trend (multi-day branch of \<^verbatim>\<open>whoop_get_recovery\<close>)\<close>

text \<open>
  Every trend loop keeps a counter \<^verbatim>\<open>count\<close> of the scored days next to its running
  totals, and every report prints it as \<^verbatim>\<open>(${count} days)\<close>.
\<close>

record counter =
  count :: nat

record trendSummary =
  days :: nat

record recoveryAcc = counter +
  totalRec :: real
  totalHrv :: real
  totalRhr :: real
  totalSpo2 :: real
  minRec :: real
  maxRec :: real

definition recoveryInit :: recoveryAcc where
  "recoveryInit = \<lparr>count = 0, totalRec = 0, totalHrv = 0, totalRhr = 0, totalSpo2 = 0,
     minRec = 100, maxRec = 0\<rparr>"

text \<open>One iteration of the loop over \<^verbatim>\<open>records\<close>; a record with no recovery score is skipped.\<close>

definition recoveryStep :: "recoveryAcc \<Rightarrow> recoveryScore dailyRecord \<Rightarrow> recoveryAcc" where
  "recoveryStep a rec =
     (let s = scoreOr noRecoveryScore rec in
      case recovery_score s of
        None \<Rightarrow> a
      | Some r \<Rightarrow>
          \<lparr>count = count a + 1,
           totalRec = fadd (totalRec a) r,
           totalHrv = fadd (totalHrv a) (orZero (hrv_rmssd_milli s)),
           totalRhr = fadd (totalRhr a) (orZero (resting_heart_rate s)),
           totalSpo2 = fadd (totalSpo2 a) (orZero (spo2_percentage s)),
           minRec = (if r < minRec a then r else minRec a),
           maxRec = (if r > maxRec a then r else maxRec a)\<rparr>)"

definition recoveryLoop :: "recoveryScore dailyRecord list \<Rightarrow> recoveryAcc" where
  "recoveryLoop records = foldl recoveryStep recoveryInit records"

record recoverySummary = trendSummary +
  avgRec :: int
  rangeLo :: int
  rangeHi :: int
  avgHrv :: real
  avgRhr :: int
  avgSpo2 :: real

definition recoverySummaryOf :: "recoveryAcc \<Rightarrow> recoverySummary" where
  "recoverySummaryOf a =
     \<lparr>days = count a,
      avgRec = jsRound (fdiv (totalRec a) (real (count a))),
      rangeLo = jsRound (minRec a),
      rangeHi = jsRound (maxRec a),
      avgHrv = fdiv (real_of_int (jsRound (fmul (fdiv (totalHrv a) (real (count a))) 10))) 10,
      avgRhr = jsRound (fdiv (totalRhr a) (real (count a))),
      avgSpo2 = fdiv (real_of_int (jsRound (fmul (fdiv (totalSpo2 a) (real (count a))) 10))) 10\<rparr>"

text \<open>\<^verbatim>\<open>records.filter(r => r.score?.recovery_score != null).map(r => r.score.recovery_score)\<close>\<close>

definition recScores :: "recoveryScore dailyRecord list \<Rightarrow> real list" where
  "recScores records =
     List.map_filter (\<lambda>r. recovery_score (scoreOr noRecoveryScore r)) records"

text \<open>\<^verbatim>\<open>records.filter(r => r.score?.hrv_rmssd_milli).map(r => r.score.hrv_rmssd_milli)\<close>\<close>

definition hrvValues :: "recoveryScore dailyRecord list \<Rightarrow> real list" where
  "hrvValues records =
     List.map_filter
       (\<lambda>r. let h = hrv_rmssd_milli (scoreOr noRecoveryScore r) in
            if truthy h then h else None) records"

text \<open>\<^verbatim>\<open>xs.reduce((a, b) => a + b, 0) / xs.length\<close>\<close>

definition avgOf :: "real list \<Rightarrow> real" where
  "avgOf xs = fdiv (foldl fadd 0 xs) (real (length xs))"

definition lowRecoveryRule :: "real list \<Rightarrow> nat \<Rightarrow> pattern list" where
  "lowRecoveryRule scores cnt =
     (let lowDays = length (filter (\<lambda>r. r < 50) scores) in
      if lowDays \<ge> 3 then [LowRecoveryCount lowDays cnt] else [])"

text \<open>
  \<^verbatim>\<open>firstHalf = hrvValues.slice(Math.floor(hrvValues.length / 2))\<close> and
  \<^verbatim>\<open>secondHalf = hrvValues.slice(0, Math.floor(hrvValues.length / 2))\<close>: the records
  come newest first, so \<open>firstHalf\<close> holds the earlier days.
\<close>

definition firstHalf :: "real list \<Rightarrow> real list" where
  "firstHalf hrv = drop (length hrv div 2) hrv"

definition secondHalf :: "real list \<Rightarrow> real list" where
  "secondHalf hrv = take (length hrv div 2) hrv"

text \<open>
  The literals \<^verbatim>\<open>0.9\<close> and \<^verbatim>\<open>1.1\<close> are the binary64 values nearest to 9/10 and 11/10.
\<close>

definition hrvTrendRule :: "real list \<Rightarrow> pattern list" where
  "hrvTrendRule hrv =
     (if length hrv \<ge> 3 then
        (let avgFirst = avgOf (firstHalf hrv);
             avgSecond = avgOf (secondHalf hrv)
         in (if avgSecond < fmul avgFirst (fl (9 / 10))
             then [HrvDown avgFirst avgSecond] else [])
          @ (if avgSecond > fmul avgFirst (fl (11 / 10))
             then [HrvUp avgFirst avgSecond] else []))
      else [])"

definition consecLowRule :: "real list \<Rightarrow> pattern list" where
  "consecLowRule scores =
     (let maxConsecLow = maxConsec (\<lambda>s. s < 50) scores in
      if maxConsecLow \<ge> 3 then [ConsecLow maxConsecLow] else [])"

definition recoveryTrend :: "recoveryScore dailyRecord list \<Rightarrow> recoverySummary toolOutput" where
  "recoveryTrend records =
     (if records = [] then Message ''No recovery data available.''
      else
        let a = recoveryLoop records in
        if count a = 0 then Message ''No scored recovery data in this range.''
        else Report (recoverySummaryOf a)
               (lowRecoveryRule (recScores records) (count a)
                @ hrvTrendRule (hrvValues records)
                @ consecLowRule (recScores records)))"

section \<open>Sleep trend (multi-day branch of \<^verbatim>\<open>whoop_get_sleep\<close>)\<close>

text \<open>\<^verbatim>\<open>msToHoursDecimal\<close> of \<^verbatim>\<open>helpers.ts\<close>: hours with one decimal.\<close>

definition msToHoursDecimal :: "real \<Rightarrow> real" where
  "msToHoursDecimal ms = fdiv (real_of_int (jsRound (fmul (fdiv ms 3600000) 10))) 10"

record sleepAcc = counter +
  totalPerf :: real
  totalEff :: real
  totalConsist :: real
  totalLightMs :: real
  totalDeepMs :: real
  totalRemMs :: real
  totalAwakeMs :: real
  totalSleepMs :: real

definition sleepInit :: sleepAcc where
  "sleepInit = \<lparr>count = 0, totalPerf = 0, totalEff = 0, totalConsist = 0,
     totalLightMs = 0, totalDeepMs = 0, totalRemMs = 0, totalAwakeMs = 0, totalSleepMs = 0\<rparr>"

text \<open>
  \<^verbatim>\<open>const sleepMs = (st.total_in_bed_time_milli || 0) - (st.total_awake_time_milli || 0)\<close>
\<close>

definition sleepMs :: "stageSummary \<Rightarrow> real" where
  "sleepMs st = fsub (orZero (total_in_bed_time_milli st)) (orZero (total_awake_time_milli st))"

text \<open>One iteration of the loop; a night with no sleep performance is skipped.\<close>

definition sleepStep :: "sleepAcc \<Rightarrow> sleepScore dailyRecord \<Rightarrow> sleepAcc" where
  "sleepStep a rec =
     (let s = scoreOr noSleepScore rec;
          st = stagesOr s in
      case sleep_performance_percentage s of
        None \<Rightarrow> a
      | Some p \<Rightarrow>
          \<lparr>count = count a + 1,
           totalPerf = fadd (totalPerf a) (orZero (Some p)),
           totalEff = fadd (totalEff a) (orZero (sleep_efficiency_percentage s)),
           totalConsist = fadd (totalConsist a) (orZero (sleep_consistency_percentage s)),
           totalLightMs = fadd (totalLightMs a) (orZero (total_light_sleep_time_milli st)),
           totalDeepMs = fadd (totalDeepMs a) (orZero (total_slow_wave_sleep_time_milli st)),
           totalRemMs = fadd (totalRemMs a) (orZero (total_rem_sleep_time_milli st)),
           totalAwakeMs = fadd (totalAwakeMs a) (orZero (total_awake_time_milli st)),
           totalSleepMs = fadd (totalSleepMs a) (sleepMs st)\<rparr>)"

definition sleepLoop :: "sleepScore dailyRecord list \<Rightarrow> sleepAcc" where
  "sleepLoop records = foldl sleepStep sleepInit records"

text \<open>\<^verbatim>\<open>totalSleepMs > 0 ? Math.round(totalStageMs / totalSleepMs * 100) : 0\<close>\<close>

definition stagePct :: "real \<Rightarrow> real \<Rightarrow> int" where
  "stagePct totalStageMs totalSleep =
     (if totalSleep > 0 then jsRound (fmul (fdiv totalStageMs totalSleep) 100) else 0)"

record sleepSummary = trendSummary +
  avgSleepH :: real
  avgPerf :: int
  avgEff :: int
  avgConsist :: int
  avgLightPct :: int
  avgDeepPct :: int
  avgRemPct :: int

definition sleepSummaryOf :: "sleepAcc \<Rightarrow> sleepSummary" where
  "sleepSummaryOf a =
     \<lparr>days = count a,
      avgSleepH = msToHoursDecimal (fdiv (totalSleepMs a) (real (count a))),
      avgPerf = jsRound (fdiv (totalPerf a) (real (count a))),
      avgEff = jsRound (fdiv (totalEff a) (real (count a))),
      avgConsist = jsRound (fdiv (totalConsist a) (real (count a))),
      avgLightPct = stagePct (totalLightMs a) (totalSleepMs a),
      avgDeepPct = stagePct (totalDeepMs a) (totalSleepMs a),
      avgRemPct = stagePct (totalRemMs a) (totalSleepMs a)\<rparr>"

text \<open>
  \<^verbatim>\<open>records.filter(r => r.score?.sleep_performance_percentage != null)
         .map(r => r.score.sleep_performance_percentage)\<close>
\<close>

definition perfs :: "sleepScore dailyRecord list \<Rightarrow> real list" where
  "perfs records =
     List.map_filter (\<lambda>r. sleep_performance_percentage (scoreOr noSleepScore r)) records"

definition lowPerfRule :: "real list \<Rightarrow> nat \<Rightarrow> pattern list" where
  "lowPerfRule ps cnt =
     (let lowPerfDays = length (filter (\<lambda>p. p < 70) ps) in
      if lowPerfDays \<ge> 3 then [LowSleepPerf lowPerfDays cnt] else [])"

definition deepSleepRule :: "int \<Rightarrow> pattern list" where
  "deepSleepRule deepPct = (if deepPct < 15 then [DeepSleepDeficit deepPct] else [])"

definition sleepTrend :: "sleepScore dailyRecord list \<Rightarrow> sleepSummary toolOutput" where
  "sleepTrend records =
     (if records = [] then Message ''No sleep data available.''
      else
        let a = sleepLoop records in
        if count a = 0 then Message ''No scored sleep data in this range.''
        else Report (sleepSummaryOf a)
               (lowPerfRule (perfs records) (count a)
                @ deepSleepRule (avgDeepPct (sleepSummaryOf a))))"

section \<open>Single night (\<^verbatim>\<open>formatSingleDay\<close> of \<^verbatim>\<open>sleep.ts\<close>)\<close>





record stageLine =
  lightPct :: int
  deepPct :: int
  remPct :: int
  awakePct :: int


section \<open>Strain trend (multi-day branch of \<^verbatim>\<open>whoop_get_strain\<close>)\<close>

record strainAcc = counter +
  totalStrain :: real

definition strainInit :: strainAcc where
  "strainInit = \<lparr>count = 0, totalStrain = 0\<rparr>"

definition strainStep :: "strainAcc \<Rightarrow> cycleScore dailyRecord \<Rightarrow> strainAcc" where
  "strainStep a c =
     (let s = scoreOr noCycleScore c in
      case strain s of
        None \<Rightarrow> a
      | Some v \<Rightarrow> \<lparr>count = count a + 1, totalStrain = fadd (totalStrain a) v\<rparr>)"

definition strainLoop :: "cycleScore dailyRecord list \<Rightarrow> strainAcc" where
  "strainLoop cycles = foldl strainStep strainInit cycles"

text \<open>\<^verbatim>\<open>cycles.filter(c => c.score?.strain != null).map(c => c.score.strain)\<close>\<close>

definition strains :: "cycleScore dailyRecord list \<Rightarrow> real list" where
  "strains cycles = List.map_filter (\<lambda>c. strain (scoreOr noCycleScore c)) cycles"

record strainSummary = trendSummary +
  avgStrain :: real
  minStrain :: real
  maxStrain :: real
  totalWorkouts :: nat

definition highStrainRule :: "real list \<Rightarrow> pattern list" where
  "highStrainRule ss =
     (let maxConsecHigh = maxConsec (\<lambda>s. s > 14) ss in
      if maxConsecHigh \<ge> 3 then [HighStrainStreak maxConsecHigh] else [])"

definition noRestRule :: "real list \<Rightarrow> nat \<Rightarrow> pattern list" where
  "noRestRule ss cnt =
     (let restDays = length (filter (\<lambda>s. s < 4) ss) in
      if restDays = 0 \<and> cnt \<ge> 7 then [NoRestDays] else [])"

text \<open>
  The handler also receives the workouts of the window; the report prints their number,
  and their names go into the daily lines only.
\<close>

definition strainTrend :: "cycleScore dailyRecord list \<Rightarrow> 'w list \<Rightarrow> strainSummary toolOutput" where
  "strainTrend cycles workouts =
     (if cycles = [] then Message ''No strain data available.''
      else
        let a = strainLoop cycles in
        if count a = 0 then Message ''No scored cycles in this range.''
        else Report
               \<lparr>days = count a,
                avgStrain = fdiv (totalStrain a) (real (count a)),
                minStrain = Min (set (strains cycles)),
                maxStrain = Max (set (strains cycles)),
                totalWorkouts = length workouts\<rparr>
               (highStrainRule (strains cycles) @ noRestRule (strains cycles) (count a)))"

section \<open>Notions of the specification\<close>

text \<open>
  The longest run: the greatest length of a contiguous stretch of the series all of
  whose days pass the test. The empty stretch always qualifies, so the maximum exists.
\<close>

definition longestRun :: "(real \<Rightarrow> bool) \<Rightarrow> real list \<Rightarrow> nat" where
  "longestRun test xs = Max (set (map length (filter (list_all test) (sublists xs))))"

text \<open>The scores of the days that carry the value \<open>key\<close> which the domain is scored by.\<close>

definition scoredDays :: "('s \<Rightarrow> real option) \<Rightarrow> 's \<Rightarrow> 's dailyRecord list \<Rightarrow> 's list" where
  "scoredDays key dflt records = filter (\<lambda>s. key s \<noteq> None) (map (scoreOr dflt) records)"

text \<open>The non-absent samples of a series.\<close>

definition present :: "real option list \<Rightarrow> real list" where
  "present samples = List.map_filter (\<lambda>x. x) samples"

text \<open>
  The aggregator's \<^verbatim>\<open>average\<close> in the words of the specification: the sum of the
  non-absent samples over their number, and undefined (\<open>None\<close>) when there is none.
\<close>

definition specAverage :: "real option list \<Rightarrow> real option" where
  "specAverage samples =
     (if present samples = [] then None
      else Some (sum_list (present samples) / real (length (present samples))))"

definition scoredRecoveries :: "recoveryScore dailyRecord list \<Rightarrow> recoveryScore list" where
  "scoredRecoveries records = scoredDays recovery_score noRecoveryScore records"

text \<open>
  The deep-sleep and the asleep milliseconds of the scored nights of a window, added up
  as numbers in the order of the records.
\<close>

definition scoredNights :: "sleepScore dailyRecord list \<Rightarrow> sleepScore list" where
  "scoredNights nights = scoredDays sleep_performance_percentage noSleepScore nights"

definition windowDeepMs :: "sleepScore dailyRecord list \<Rightarrow> real" where
  "windowDeepMs nights =
     foldl fadd 0
       (map (\<lambda>s. orZero (total_slow_wave_sleep_time_milli (stagesOr s))) (scoredNights nights))"

definition windowSleepMs :: "sleepScore dailyRecord list \<Rightarrow> real" where
  "windowSleepMs nights = foldl fadd 0 (map (\<lambda>s. sleepMs (stagesOr s)) (scoredNights nights))"

section \<open>Example records\<close>

definition recoveryDay ::
  "real option \<Rightarrow> real option \<Rightarrow> real option \<Rightarrow> real option \<Rightarrow> recoveryScore dailyRecord" where
  "recoveryDay rs hrv rhr spo2 =
     \<lparr>timestamp = ''2026-02-26T07:00:00.000Z'',
      score = Some \<lparr>recovery_score = rs, hrv_rmssd_milli = hrv, resting_heart_rate = rhr,
                    spo2_percentage = spo2, skin_temp_celsius = None\<rparr>\<rparr>"

definition recoveryOf :: "real \<Rightarrow> recoveryScore dailyRecord" where
  "recoveryOf v = recoveryDay (Some v) None None None"

definition hrvOf :: "real \<Rightarrow> recoveryScore dailyRecord" where
  "hrvOf h = recoveryDay (Some 60) (Some h) None None"

definition unscoredDay :: "'s dailyRecord" where
  "unscoredDay = \<lparr>timestamp = ''2026-02-26T07:00:00.000Z'', score = None\<rparr>"

definition night ::
  "real option \<Rightarrow> real option \<Rightarrow> real option \<Rightarrow> real option \<Rightarrow> real option
     \<Rightarrow> sleepScore dailyRecord" where
  "night perf eff inBed awake deep =
     \<lparr>timestamp = ''2026-02-25T22:30:00.000Z'',
      score = Some \<lparr>stage_summary =
                      Some \<lparr>total_in_bed_time_milli = inBed, total_awake_time_milli = awake,
                            total_light_sleep_time_milli = None,
                            total_slow_wave_sleep_time_milli = deep,
                            total_rem_sleep_time_milli = None\<rparr>,
                    sleep_performance_percentage = perf,
                    sleep_efficiency_percentage = eff,
                    sleep_consistency_percentage = None\<rparr>\<rparr>"

definition cycleDay :: "real \<Rightarrow> cycleScore dailyRecord" where
  "cycleDay v = \<lparr>timestamp = ''2026-02-26T04:00:00.000Z'', score = Some \<lparr>strain = Some v\<rparr>\<rparr>"

section \<open>Rounding to binary64\<close>

lemma expo_double: "x \<noteq> 0 \<Longrightarrow> expo (2 * x) = expo x + 1"
proof -
  assume x: "x \<noteq> 0"
  have "log 2 \<bar>2 * x\<bar> = 1 + log 2 \<bar>x\<bar>"
    using x by (simp add: abs_mult log_mult)
  then show ?thesis using x by (simp add: expo_def)
qed

lemma expo_half: "x \<noteq> 0 \<Longrightarrow> expo (x / 2) = expo x - 1"
  using expo_double [of "x / 2"] by simp

lemma expo_unit: "1 \<le> \<bar>x\<bar> \<Longrightarrow> \<bar>x\<bar> < 2 \<Longrightarrow> expo x = 0"
proof -
  assume a: "1 \<le> \<bar>x\<bar>" "\<bar>x\<bar> < 2"
  then have "0 \<le> log 2 \<bar>x\<bar>" "log 2 \<bar>x\<bar> < 1"
    by (simp_all add: log_less_iff)
  then have "\<lfloor>log 2 \<bar>x\<bar>\<rfloor> = 0" by linarith
  then show ?thesis using a by (auto simp: expo_def)
qed

lemma expo_code [code]:
  "expo x = (if x = 0 then 0
             else if \<bar>x\<bar> < 1 then expo (2 * x) - 1
             else if 2 \<le> \<bar>x\<bar> then expo (x / 2) + 1
             else 0)"
  by (simp add: expo_double expo_half expo_unit) (simp add: expo_def)

lemma rne_of_int: "rne (real_of_int n) = n"
  by (simp add: rne_def)



lemma expo_bounds:
  assumes "0 < x"
  shows "2 powi (expo x) \<le> x \<and> x < 2 powi (expo x + 1)"
proof -
  have "\<lfloor>log 2 x\<rfloor> = expo x" using assms by (simp add: expo_def)
  then have "2 powr real_of_int (expo x) \<le> x \<and> x < 2 powr (real_of_int (expo x) + 1)"
    using assms floor_log_eq_powr_iff [of x 2 "expo x"] by simp
  moreover have "real_of_int (expo x) + 1 = real_of_int (expo x + 1)" by simp
  ultimately have "2 powr real_of_int (expo x) \<le> x \<and> x < 2 powr real_of_int (expo x + 1)"
    by (simp only:)
  moreover have "(2::real) powr real_of_int (expo x) = 2 powi (expo x)"
    by (rule powr_real_of_int') simp_all
  moreover have "(2::real) powr real_of_int (expo x + 1) = 2 powi (expo x + 1)"
    by (rule powr_real_of_int') simp_all
  ultimately show ?thesis by (simp only:)
qed


lemma fl_0: "fl 0 = 0"
  by (simp add: fl_def)








section \<open>The streak loop computes the longest run\<close>

lemma prefix_takeWhile_iff:
  "prefix ys (takeWhile P zs) \<longleftrightarrow> prefix ys zs \<and> list_all P ys"
proof (induction zs arbitrary: ys)
  case Nil
  then show ?case by auto
next
  case (Cons z zs)
  then show ?case by (cases ys) auto
qed

lemma runLengths_eq:
  "set (map length (filter (list_all P) (sublists xs)))
     = length ` {ys. sublist ys xs \<and> list_all P ys}"
  by auto

lemma finite_prefix_lengths: "finite (length ` {ys. prefix ys ws})"
proof -
  have "{ys. prefix ys ws} = set (prefixes ws)" by auto
  then show ?thesis by (metis List.finite_set finite_imageI)
qed

lemma Max_prefix_lengths:
  "Max (length ` {ys. prefix ys ws}) = length ws"
proof (rule Max_eqI)
  show "finite (length ` {ys. prefix ys ws})" by (rule finite_prefix_lengths)
  show "\<And>n. n \<in> length ` {ys. prefix ys ws} \<Longrightarrow> n \<le> length ws"
    by (auto simp: prefix_length_le)
  show "length ws \<in> length ` {ys. prefix ys ws}" by auto
qed

lemma longestRun_Nil: "longestRun P [] = 0"
  by (simp add: longestRun_def)

lemma longestRun_Cons:
  "longestRun P (x # xs) = max (length (takeWhile P (x # xs))) (longestRun P xs)"
proof -
  let ?A = "{ys. prefix ys (takeWhile P (x # xs))}"
  let ?B = "{ys. sublist ys xs \<and> list_all P ys}"
  have split: "{ys. sublist ys (x # xs) \<and> list_all P ys} = ?A \<union> ?B"
  proof -
    have "\<And>ys. (sublist ys (x # xs) \<and> list_all P ys)
            \<longleftrightarrow> (prefix ys (takeWhile P (x # xs)) \<or> (sublist ys xs \<and> list_all P ys))"
      using prefix_takeWhile_iff [of _ P "x # xs"] sublist_Cons_right [of _ x xs] by blast
    then show ?thesis by blast
  qed
  have finA: "finite (length ` ?A)" by (rule finite_prefix_lengths)
  have finB: "finite (length ` ?B)"
  proof -
    have "?B = set (filter (list_all P) (sublists xs))" by auto
    then show ?thesis by (metis List.finite_set finite_imageI)
  qed
  have neA: "length ` ?A \<noteq> {}" by auto
  have neB: "length ` ?B \<noteq> {}" by auto
  have "longestRun P (x # xs) = Max (length ` ?A \<union> length ` ?B)"
    unfolding longestRun_def runLengths_eq split by (simp add: image_Un)
  also have "\<dots> = max (Max (length ` ?A)) (Max (length ` ?B))"
    using finA neA finB neB by (rule Max_Un)
  also have "Max (length ` ?A) = length (takeWhile P (x # xs))"
    by (rule Max_prefix_lengths)
  also have "Max (length ` ?B) = longestRun P xs"
    unfolding longestRun_def runLengths_eq ..
  finally show ?thesis .
qed

lemma takeWhile_le_longestRun: "length (takeWhile P xs) \<le> longestRun P xs"
  by (cases xs) (simp_all add: longestRun_Nil longestRun_Cons)

lemma consecLoop_fst:
  "c \<le> m \<Longrightarrow>
   fst (consecLoop test xs (m, c)) = max m (max (c + length (takeWhile test xs)) (longestRun test xs))"
proof (induction xs arbitrary: m c)
  case Nil
  then show ?case by (simp add: longestRun_Nil)
next
  case (Cons x xs)
  show ?case
  proof (cases "test x")
    case True
    have "fst (consecLoop test (x # xs) (m, c)) = fst (consecLoop test xs (max m (c + 1), c + 1))"
      using True by simp
    also have "\<dots> = max (max m (c + 1)) (max (c + 1 + length (takeWhile test xs)) (longestRun test xs))"
      by (rule Cons.IH) simp
    finally show ?thesis using True Cons.prems by (simp add: longestRun_Cons max_def)
  next
    case False
    have "fst (consecLoop test (x # xs) (m, c)) = fst (consecLoop test xs (m, 0))"
      using False by simp
    also have "\<dots> = max m (max (0 + length (takeWhile test xs)) (longestRun test xs))"
      by (rule Cons.IH) simp
    finally show ?thesis
      using False Cons.prems takeWhile_le_longestRun [of test xs]
      by (simp add: longestRun_Cons max_def)
  qed
qed

lemma maxConsec_longestRun: "maxConsec test xs = longestRun test xs"
  using consecLoop_fst [of 0 0 test xs] takeWhile_le_longestRun [of test xs]
  by (simp add: maxConsec_def)

lemma longestRun_rev: "longestRun P (rev xs) = longestRun P xs"
proof -
  have "length ` {ys. sublist ys (rev xs) \<and> list_all P ys} = length ` {ys. sublist ys xs \<and> list_all P ys}"
  proof (intro set_eqI iffI)
    fix n assume "n \<in> length ` {ys. sublist ys (rev xs) \<and> list_all P ys}"
    then obtain ys where "sublist ys (rev xs)" "list_all P ys" "n = length ys" by auto
    then have "sublist (rev ys) xs \<and> list_all P (rev ys) \<and> n = length (rev ys)"
      by (simp add: sublist_rev_right list_all_iff)
    then show "n \<in> length ` {ys. sublist ys xs \<and> list_all P ys}" by blast
  next
    fix n assume "n \<in> length ` {ys. sublist ys xs \<and> list_all P ys}"
    then obtain ys where "sublist ys xs" "list_all P ys" "n = length ys" by auto
    then have "sublist (rev ys) (rev xs) \<and> list_all P (rev ys) \<and> n = length (rev ys)"
      by (simp add: list_all_iff)
    then show "n \<in> length ` {ys. sublist ys (rev xs) \<and> list_all P ys}" by blast
  qed
  then show ?thesis unfolding longestRun_def runLengths_eq by simp
qed

section \<open>Scored values and loop counters\<close>

lemma recScores_Nil: "recScores [] = []"
  by (simp add: recScores_def List.map_filter_def)

lemma recScores_Cons:
  "recScores (r # rs) =
     (case recovery_score (scoreOr noRecoveryScore r) of
        None \<Rightarrow> recScores rs | Some v \<Rightarrow> v # recScores rs)"
  by (simp add: recScores_def List.map_filter_def split: option.splits)

lemma recScores_append: "recScores (xs @ ys) = recScores xs @ recScores ys"
  by (simp add: recScores_def List.map_filter_def)

lemma hrvValues_Nil: "hrvValues [] = []"
  by (simp add: hrvValues_def List.map_filter_def)

lemma hrvValues_Cons:
  "hrvValues (r # rs) =
     (if truthy (hrv_rmssd_milli (scoreOr noRecoveryScore r))
      then the (hrv_rmssd_milli (scoreOr noRecoveryScore r)) # hrvValues rs
      else hrvValues rs)"
  by (simp add: hrvValues_def List.map_filter_def Let_def truthy_def split: option.splits)

lemma hrvValues_append: "hrvValues (xs @ ys) = hrvValues xs @ hrvValues ys"
  by (simp add: hrvValues_def List.map_filter_def)

lemma perfs_Nil: "perfs [] = []"
  by (simp add: perfs_def List.map_filter_def)

lemma perfs_Cons:
  "perfs (r # rs) =
     (case sleep_performance_percentage (scoreOr noSleepScore r) of
        None \<Rightarrow> perfs rs | Some v \<Rightarrow> v # perfs rs)"
  by (simp add: perfs_def List.map_filter_def split: option.splits)

lemma strains_Nil: "strains [] = []"
  by (simp add: strains_def List.map_filter_def)

lemma strains_Cons:
  "strains (c # cs) =
     (case strain (scoreOr noCycleScore c) of
        None \<Rightarrow> strains cs | Some v \<Rightarrow> v # strains cs)"
  by (simp add: strains_def List.map_filter_def split: option.splits)

lemma recoveryStep_skip:
  "recovery_score (scoreOr noRecoveryScore r) = None \<Longrightarrow> recoveryStep a r = a"
  by (simp add: recoveryStep_def Let_def)

lemma recoveryStep_scored:
  "recovery_score (scoreOr noRecoveryScore r) = Some v \<Longrightarrow>
   recoveryStep a r =
     \<lparr>count = count a + 1,
      totalRec = fadd (totalRec a) v,
      totalHrv = fadd (totalHrv a) (orZero (hrv_rmssd_milli (scoreOr noRecoveryScore r))),
      totalRhr = fadd (totalRhr a) (orZero (resting_heart_rate (scoreOr noRecoveryScore r))),
      totalSpo2 = fadd (totalSpo2 a) (orZero (spo2_percentage (scoreOr noRecoveryScore r))),
      minRec = (if v < minRec a then v else minRec a),
      maxRec = (if v > maxRec a then v else maxRec a)\<rparr>"
  by (simp add: recoveryStep_def Let_def)

lemma recovery_count_foldl:
  "count (foldl recoveryStep a rs) = count a + length (recScores rs)"
proof (induction rs arbitrary: a)
  case Nil
  show ?case by (simp add: recScores_def List.map_filter_def)
next
  case (Cons r rs)
  show ?case
  proof (cases "recovery_score (scoreOr noRecoveryScore r)")
    case None
    then show ?thesis using Cons.IH [of a] by (simp add: recoveryStep_skip recScores_Cons)
  next
    case (Some v)
    then show ?thesis
      using Cons.IH [of "recoveryStep a r"] by (simp add: recoveryStep_scored recScores_Cons)
  qed
qed

lemma recovery_count: "count (recoveryLoop records) = length (recScores records)"
  by (simp add: recoveryLoop_def recovery_count_foldl recoveryInit_def)

lemma sleepStep_skip:
  "sleep_performance_percentage (scoreOr noSleepScore r) = None \<Longrightarrow> sleepStep a r = a"
  by (simp add: sleepStep_def Let_def)

lemma sleepStep_count:
  "sleep_performance_percentage (scoreOr noSleepScore r) = Some v \<Longrightarrow>
   count (sleepStep a r) = count a + 1"
  by (simp add: sleepStep_def Let_def)

lemma sleepStep_scored:
  "sleep_performance_percentage (scoreOr noSleepScore r) = Some p \<Longrightarrow>
   totalDeepMs (sleepStep a r)
     = fadd (totalDeepMs a)
         (orZero (total_slow_wave_sleep_time_milli (stagesOr (scoreOr noSleepScore r))))
   \<and> totalSleepMs (sleepStep a r)
     = fadd (totalSleepMs a) (sleepMs (stagesOr (scoreOr noSleepScore r)))"
  by (simp add: sleepStep_def Let_def)

lemma sleep_count_foldl:
  "count (foldl sleepStep a rs) = count a + length (perfs rs)"
proof (induction rs arbitrary: a)
  case Nil
  show ?case by (simp add: perfs_def List.map_filter_def)
next
  case (Cons r rs)
  show ?case
  proof (cases "sleep_performance_percentage (scoreOr noSleepScore r)")
    case None
    then show ?thesis using Cons.IH [of a] by (simp add: sleepStep_skip perfs_Cons)
  next
    case (Some v)
    then show ?thesis
      using Cons.IH [of "sleepStep a r"] by (simp add: sleepStep_count perfs_Cons)
  qed
qed

lemma sleep_count: "count (sleepLoop records) = length (perfs records)"
  by (simp add: sleepLoop_def sleep_count_foldl sleepInit_def)

lemma strain_count_foldl:
  "count (foldl strainStep a cs) = count a + length (strains cs)"
proof (induction cs arbitrary: a)
  case Nil
  show ?case by (simp add: strains_def List.map_filter_def)
next
  case (Cons c cs)
  show ?case
    using Cons.IH [of "strainStep a c"]
    by (cases "strain (scoreOr noCycleScore c)") (simp_all add: strainStep_def Let_def strains_Cons)
qed

lemma strain_count: "count (strainLoop cycles) = length (strains cycles)"
  by (simp add: strainLoop_def strain_count_foldl strainInit_def)

lemma unscored_recScores:
  "(\<forall>r\<in>set records. recovery_score (scoreOr noRecoveryScore r) = None) \<longleftrightarrow> recScores records = []"
proof (induction records)
  case Nil
  show ?case by (simp add: recScores_Nil)
next
  case (Cons r rs)
  then show ?case
    by (cases "recovery_score (scoreOr noRecoveryScore r)") (simp_all add: recScores_Cons)
qed

lemma unscored_perfs:
  "(\<forall>r\<in>set records. sleep_performance_percentage (scoreOr noSleepScore r) = None) \<longleftrightarrow> perfs records = []"
proof (induction records)
  case Nil
  show ?case by (simp add: perfs_Nil)
next
  case (Cons r rs)
  then show ?case
    by (cases "sleep_performance_percentage (scoreOr noSleepScore r)") (simp_all add: perfs_Cons)
qed

lemma unscored_strains:
  "(\<forall>c\<in>set cycles. strain (scoreOr noCycleScore c) = None) \<longleftrightarrow> strains cycles = []"
proof (induction cycles)
  case Nil
  show ?case by (simp add: strains_Nil)
next
  case (Cons c cs)
  then show ?case
    by (cases "strain (scoreOr noCycleScore c)") (simp_all add: strains_Cons)
qed

section \<open>Reports and their pattern lists\<close>

lemma recoveryTrend_patterns:
  "patternsOf (recoveryTrend records) =
     (if recScores records = [] then []
      else lowRecoveryRule (recScores records) (length (recScores records))
           @ hrvTrendRule (hrvValues records)
           @ consecLowRule (recScores records))"
proof (cases "records = []")
  case True
  then show ?thesis by (simp add: recoveryTrend_def recScores_def List.map_filter_def)
next
  case False
  then show ?thesis by (simp add: recoveryTrend_def Let_def recovery_count)
qed

lemma sleepTrend_patterns:
  "patternsOf (sleepTrend records) =
     (if perfs records = [] then []
      else lowPerfRule (perfs records) (length (perfs records))
           @ deepSleepRule (avgDeepPct (sleepSummaryOf (sleepLoop records))))"
proof (cases "records = []")
  case True
  then show ?thesis by (simp add: sleepTrend_def perfs_def List.map_filter_def)
next
  case False
  then show ?thesis by (simp add: sleepTrend_def Let_def sleep_count)
qed

lemma strainTrend_patterns:
  "patternsOf (strainTrend cycles workouts) =
     (if strains cycles = [] then []
      else highStrainRule (strains cycles) @ noRestRule (strains cycles) (length (strains cycles)))"
proof (cases "cycles = []")
  case True
  then show ?thesis by (simp add: strainTrend_def strains_def List.map_filter_def)
next
  case False
  then show ?thesis by (simp add: strainTrend_def Let_def strain_count)
qed

lemma recoveryTrend_Report:
  "recoveryTrend records = Report s ps \<Longrightarrow> s = recoverySummaryOf (recoveryLoop records)"
  by (simp add: recoveryTrend_def Let_def split: if_splits)

lemma sleepTrend_Report:
  "sleepTrend nights = Report s ps \<Longrightarrow>
     s = sleepSummaryOf (sleepLoop nights) \<and> ps = patternsOf (sleepTrend nights)"
  by (simp add: sleepTrend_def Let_def split: if_splits)

section \<open>Window totals\<close>

lemma foldl_total:
  fixes tot :: "'acc \<Rightarrow> real"
  assumes skip: "\<And>a r. key (scoreOr d r) = None \<Longrightarrow> step a r = a"
    and add: "\<And>a r v. key (scoreOr d r) = Some v \<Longrightarrow>
               tot (step a r) = fadd (tot a) (f (scoreOr d r))"
  shows "tot (foldl step a rs) = foldl fadd (tot a) (map f (scoredDays key d rs))"
proof (induction rs arbitrary: a)
  case Nil
  show ?case by (simp add: scoredDays_def)
next
  case (Cons r rs)
  show ?case
  proof (cases "key (scoreOr d r)")
    case None
    then show ?thesis using Cons.IH [of a] by (simp add: skip scoredDays_def)
  next
    case (Some v)
    then show ?thesis
      using Cons.IH [of "step a r"] add [OF Some, of a] by (simp add: scoredDays_def)
  qed
qed

lemma totalDeepMs_window: "totalDeepMs (sleepLoop nights) = windowDeepMs nights"
  unfolding sleepLoop_def windowDeepMs_def scoredNights_def
  by (subst foldl_total [where key = sleep_performance_percentage and d = noSleepScore
        and f = "\<lambda>s. orZero (total_slow_wave_sleep_time_milli (stagesOr s))"])
     (simp_all add: sleepStep_skip sleepStep_scored sleepInit_def)

lemma totalSleepMs_window: "totalSleepMs (sleepLoop nights) = windowSleepMs nights"
  unfolding sleepLoop_def windowSleepMs_def scoredNights_def
  by (subst foldl_total [where key = sleep_performance_percentage and d = noSleepScore
        and f = "\<lambda>s. sleepMs (stagesOr s)"])
     (simp_all add: sleepStep_skip sleepStep_scored sleepInit_def)

section \<open>Values of the rounding\<close>

lemma fl_eval:
  assumes "2 powi e \<le> \<bar>x\<bar>" "\<bar>x\<bar> < 2 powi (e + 1)"
  shows "fl x = real_of_int (rne (x / 2 powi (e - 52))) * 2 powi (e - 52)"
proof -
  have pos: "0 < \<bar>x\<bar>"
  proof -
    have "(0::real) < 2 powi e" by simp
    then show ?thesis using assms(1) by linarith
  qed
  have "(2::real) powr real_of_int e = 2 powi e" by (rule powr_real_of_int') simp_all
  moreover have "(2::real) powr (real_of_int e + 1) = 2 powi (e + 1)"
  proof -
    have "real_of_int e + 1 = real_of_int (e + 1)" by simp
    then have "(2::real) powr (real_of_int e + 1) = 2 powr real_of_int (e + 1)" by (simp only:)
    also have "\<dots> = 2 powi (e + 1)" by (rule powr_real_of_int') simp_all
    finally show ?thesis .
  qed
  ultimately have "\<lfloor>log 2 \<bar>x\<bar>\<rfloor> = e"
    using assms pos floor_log_eq_powr_iff [of "\<bar>x\<bar>" 2 e] by simp
  then have "expo x = e" using pos by (auto simp: expo_def)
  then show ?thesis using pos by (auto simp: fl_def)
qed

lemma fl_of_int:
  assumes "\<bar>n\<bar> < 2 ^ 53"
  shows "fl (real_of_int n) = real_of_int n"
proof (cases "n = 0")
  case True
  then show ?thesis by (simp add: fl_0)
next
  case False
  let ?x = "real_of_int n"
  let ?e = "expo ?x"
  have pos: "0 < \<bar>?x\<bar>" using False by simp
  have "expo \<bar>?x\<bar> = ?e" by (simp add: expo_def)
  then have lo: "2 powi ?e \<le> \<bar>?x\<bar>" using expo_bounds [OF pos] by simp
  have "real_of_int \<bar>n\<bar> < real_of_int (2 ^ 53)" using assms by (simp only: of_int_less_iff)
  then have hi: "\<bar>?x\<bar> < 2 powi 53" by simp
  have e: "?e \<le> 52"
  proof (rule ccontr)
    assume "\<not> ?e \<le> 52"
    then have "53 \<le> ?e" by simp
    then have "(2::real) powi 53 \<le> 2 powi ?e" by (intro power_int_increasing) simp_all
    then show False using lo hi by linarith
  qed
  define k where "k = nat (52 - ?e)"
  have "?e - 52 = - int k" using e by (simp add: k_def)
  then have q: "(2::real) powi (?e - 52) = inverse (2 ^ k)"
    by (simp add: power_int_minus)
  have "?x / 2 powi (?e - 52) = real_of_int (n * 2 ^ k)"
    by (simp add: q divide_inverse)
  then have "rne (?x / 2 powi (?e - 52)) = n * 2 ^ k" by (simp only: rne_of_int)
  then show ?thesis using False by (simp add: fl_def q)
qed

lemma fl_numeral: "numeral k < (2::int) ^ 53 \<Longrightarrow> fl (numeral k) = numeral k"
  using fl_of_int [of "numeral k"] by simp

lemma fl_neg_numeral: "numeral k < (2::int) ^ 53 \<Longrightarrow> fl (- numeral k) = - numeral k"
  using fl_of_int [of "- numeral k"] by simp

lemma fl_1: "fl 1 = 1"
  using fl_of_int [of 1] by simp

lemma fl_value_1:
  "fl (9 / 10) = 8106479329266893 / 9007199254740992"
  by (simp add: fl_eval [where e = "- 1"] rne_def)

lemma fl_value_2:
  "fl (105384231280469609 / 2251799813685248) = 6586514455029351 / 140737488355328"
  by (simp add: fl_eval [where e = "5"] rne_def)

lemma fl_value_3:
  "fl (11 / 10) = 2476979795053773 / 2251799813685248"
  by (simp add: fl_eval [where e = "0"] rne_def)

lemma fl_value_4:
  "fl (32200737335699049 / 562949953421312) = 4025092166962381 / 70368744177664"
  by (simp add: fl_eval [where e = "5"] rne_def)

lemma fl_value_5:
  "fl (100 / 3) = 4691249611844267 / 140737488355328"
  by (simp add: fl_eval [where e = "5"] rne_def)

lemma fl_value_6:
  "fl (38029518006846885685310794952431 / 1267650600228229401496703205376) = 8444249301319681 / 281474976710656"
  by (simp add: fl_eval [where e = "4"] rne_def)

lemma fl_value_7:
  "fl (11620130502092104610962966769391 / 316912650057057350374175801344) = 2580187286514347 / 70368744177664"
  by (simp add: fl_eval [where e = "5"] rne_def)

lemma fl_value_8:
  "fl (- (40532396646334465 / 4503599627370496)) = - 9"
  by (simp add: fl_eval [where e = "3"] rne_def)

lemma fl_value_9:
  "fl (- (12384898975268865 / 1125899906842624)) = - 11"
  by (simp add: fl_eval [where e = "3"] rne_def)

lemma fl_value_10:
  "fl (1 / 2) = 1 / 2"
  by (simp add: fl_eval [where e = "- 1"] rne_def)

lemma fl_value_11:
  "fl (161 / 2) = 161 / 2"
  by (simp add: fl_eval [where e = "6"] rne_def)

lemma fl_value_12:
  "fl (161 / 4) = 161 / 4"
  by (simp add: fl_eval [where e = "5"] rne_def)

lemma fl_value_13:
  "fl (1305143172011969773 / 36028797018963968) = 5098215515671757 / 140737488355328"
  by (simp add: fl_eval [where e = "5"] rne_def)

lemma fl_value_14:
  "fl (398793747003657453 / 9007199254740992) = 1557788074233037 / 35184372088832"
  by (simp add: fl_eval [where e = "5"] rne_def)

lemma fl_value_15:
  "fl (323 / 10) = 2272910436938547 / 70368744177664"
  by (simp add: fl_eval [where e = "5"] rne_def)

lemma fl_value_16:
  "fl (162 / 5) = 4559894622712627 / 140737488355328"
  by (simp add: fl_eval [where e = "5"] rne_def)

lemma fl_value_17:
  "fl (2272910436938547 / 70368744177664) = 2272910436938547 / 70368744177664"
  by (simp add: fl_eval [where e = "5"] rne_def)

lemma fl_value_18:
  "fl (9105715496589721 / 140737488355328) = 1138214437073715 / 17592186044416"
  by (simp add: fl_eval [where e = "6"] rne_def)

lemma fl_value_19:
  "fl (1138214437073715 / 35184372088832) = 1138214437073715 / 35184372088832"
  by (simp add: fl_eval [where e = "5"] rne_def)

lemma fl_value_20:
  "fl (5691072185368575 / 17592186044416) = 5691072185368575 / 17592186044416"
  by (simp add: fl_eval [where e = "8"] rne_def)

lemma fl_value_21:
  "fl (7 / 8) = 7 / 8"
  by (simp add: fl_eval [where e = "- 1"] rne_def)

lemma fl_value_22:
  "fl (35 / 4) = 35 / 4"
  by (simp add: fl_eval [where e = "3"] rne_def)

lemma fl_value_23:
  "fl (8106479329266893 / 9007199254740992) = 8106479329266893 / 9007199254740992"
  by (simp add: fl_eval [where e = "- 1"] rne_def)

lemma fl_value_24:
  "fl (2 / 21) = 857828500451523 / 9007199254740992"
  by (simp add: fl_eval [where e = "- 4"] rne_def)

lemma fl_value_25:
  "fl (21445712511288075 / 2251799813685248) = 5361428127822019 / 562949953421312"
  by (simp add: fl_eval [where e = "3"] rne_def)

lemma fl_value_26:
  "fl (29 / 200) = 5224175567749775 / 36028797018963968"
  by (simp add: fl_eval [where e = "- 3"] rne_def)

lemma fl_value_27:
  "fl (130604389193744375 / 9007199254740992) = 8162774324609023 / 562949953421312"
  by (simp add: fl_eval [where e = "3"] rne_def)

lemma fl_value_28:
  "fl (73 / 500) = 5260204364768739 / 36028797018963968"
  by (simp add: fl_eval [where e = "- 3"] rne_def)

lemma fl_value_29:
  "fl (131505109119218475 / 9007199254740992) = 8219069319951155 / 562949953421312"
  by (simp add: fl_eval [where e = "3"] rne_def)

lemmas fl_values = fl_0 fl_1 fl_numeral fl_neg_numeral
  fl_value_1 fl_value_2 fl_value_3 fl_value_4 fl_value_5 fl_value_6
  fl_value_7 fl_value_8 fl_value_9 fl_value_10 fl_value_11 fl_value_12
  fl_value_13 fl_value_14 fl_value_15 fl_value_16 fl_value_17 fl_value_18
  fl_value_19 fl_value_20 fl_value_21 fl_value_22 fl_value_23 fl_value_24
  fl_value_25 fl_value_26 fl_value_27 fl_value_28 fl_value_29

lemmas arith_eval = fadd_def fsub_def fmul_def fdiv_def jsRound_def fl_values

lemmas hrv_eval = hrvTrendRule_def avgOf_def firstHalf_def secondHalf_def Let_def

lemmas recovery_eval = recoveryTrend_def recoverySummaryOf_def recoveryLoop_def recoveryStep_def
  recoveryInit_def recoveryDay_def scoreOr_def orZero_def lowRecoveryRule_def consecLowRule_def
  recScores_Cons recScores_Nil hrvValues_Cons hrvValues_Nil truthy_def maxConsec_def hrv_eval

lemmas sleep_eval = sleepTrend_def sleepSummaryOf_def sleepLoop_def sleepStep_def sleepInit_def
  night_def scoreOr_def stagesOr_def sleepMs_def orZero_def Let_def msToHoursDecimal_def
  stagePct_def lowPerfRule_def deepSleepRule_def perfs_Cons perfs_Nil

lemmas window_eval = windowSleepMs_def windowDeepMs_def scoredNights_def scoredDays_def
  night_def scoreOr_def stagesOr_def sleepMs_def orZero_def

section \<open>Averages of the trend reports\<close>

text \<open>
  Claim C1 says that the average of a metric divides the sum of its non-absent samples
  by their number and is undefined when there is none. The trend loops add
  \<^verbatim>\<open>metric || 0\<close> for every scored day and divide by the one counter of scored days. So on
  a two-day recovery window whose second day has a recovery score but no HRV, and no
  SpO2 on either day, the report says average HRV 20 where the claim gives 40, and
  average SpO2 0 where the claim gives no number; on two nights of which one has no
  sleep efficiency the report says 45 where the claim gives 90.
\<close>

theorem trend_averages_failing_input:
  "recoveryTrend [recoveryDay (Some 60) (Some 40) None None, recoveryDay (Some 70) None None None]
     = Report \<lparr>days = 2, avgRec = 65, rangeLo = 60, rangeHi = 70,
               avgHrv = 20, avgRhr = 0, avgSpo2 = 0\<rparr> []
   \<and> specAverage (map hrv_rmssd_milli (scoredRecoveries
        [recoveryDay (Some 60) (Some 40) None None, recoveryDay (Some 70) None None None]))
       = Some 40
   \<and> specAverage (map spo2_percentage (scoredRecoveries
        [recoveryDay (Some 60) (Some 40) None None, recoveryDay (Some 70) None None None]))
       = None
   \<and> sleepTrend [night (Some 80) (Some 90) None None None, night (Some 60) None None None None]
     = Report \<lparr>days = 2, avgSleepH = 0, avgPerf = 70, avgEff = 45, avgConsist = 0,
               avgLightPct = 0, avgDeepPct = 0, avgRemPct = 0\<rparr> [DeepSleepDeficit 0]
   \<and> specAverage (map sleep_efficiency_percentage (scoredNights
        [night (Some 80) (Some 90) None None None, night (Some 60) None None None None]))
       = Some 90"
proof -
  have r: "recoveryTrend
      [recoveryDay (Some 60) (Some 40) None None, recoveryDay (Some 70) None None None]
     = Report \<lparr>days = 2, avgRec = 65, rangeLo = 60, rangeHi = 70,
               avgHrv = 20, avgRhr = 0, avgSpo2 = 0\<rparr> []"
    by (simp add: recovery_eval arith_eval)
  have n: "sleepTrend
      [night (Some 80) (Some 90) None None None, night (Some 60) None None None None]
     = Report \<lparr>days = 2, avgSleepH = 0, avgPerf = 70, avgEff = 45, avgConsist = 0,
               avgLightPct = 0, avgDeepPct = 0, avgRemPct = 0\<rparr> [DeepSleepDeficit 0]"
    by (simp add: sleep_eval arith_eval)
  have a: "specAverage (map hrv_rmssd_milli (scoredRecoveries
        [recoveryDay (Some 60) (Some 40) None None, recoveryDay (Some 70) None None None]))
       = Some 40"
    "specAverage (map spo2_percentage (scoredRecoveries
        [recoveryDay (Some 60) (Some 40) None None, recoveryDay (Some 70) None None None]))
       = None"
    by (simp_all add: specAverage_def present_def List.map_filter_def scoredRecoveries_def
        scoredDays_def recoveryDay_def scoreOr_def)
  have b: "specAverage (map sleep_efficiency_percentage (scoredNights
        [night (Some 80) (Some 90) None None None, night (Some 60) None None None None]))
       = Some 90"
    by (simp add: specAverage_def present_def List.map_filter_def scoredNights_def
        scoredDays_def night_def scoreOr_def)
  show ?thesis using r n a b by simp
qed

text \<open>
  The rounding of the averages follows the numbers of the program: the HRV values 32.3
  and 32.4 add up to 64.69999999999999, and the report prints 32.3.
\<close>

lemma avgHrv_rounding_example:
  "avgHrv (recoverySummaryOf (recoveryLoop
      [recoveryDay (Some 60) (Some (fl (323 / 10))) None None,
       recoveryDay (Some 60) (Some (fl (324 / 10))) None None])) = fl (323 / 10)"
  by (simp add: recovery_eval arith_eval)

section \<open>Deep-sleep deficit\<close>

text \<open>
  Claim C2, as the handler computes it. In every sleep trend report the window
  deep-sleep percentage is the sum of the scored nights' deep-sleep milliseconds divided
  by the sum of their asleep milliseconds (in-bed less awake), times 100 and rounded to
  an integer by \<^verbatim>\<open>Math.round\<close>, and it is 0 when the total asleep time is not positive. The
  rule fires exactly when this integer is below 15, and its message carries it. On the
  two nights with 10 of 100 and 0 of 5 minutes of deep sleep the reported number is 10
  (9.52 rounded), not the 5 of the average of the two ratios.
\<close>

theorem deep_sleep_deficit_rule:
  "(sleepTrend nights = Report s ps \<longrightarrow>
      avgDeepPct s
        = (if 0 < windowSleepMs nights
           then jsRound (fmul (fdiv (windowDeepMs nights) (windowSleepMs nights)) 100)
           else 0)
      \<and> (DeepSleepDeficit p \<in> set ps \<longleftrightarrow> p = avgDeepPct s \<and> p < 15))
   \<and> patternsOf (sleepTrend
        [night (Some 80) None (Some 6000000) None (Some 600000),
         night (Some 80) None (Some 300000) None (Some 0)]) = [DeepSleepDeficit 10]"
proof -
  have gen: "avgDeepPct s
        = (if 0 < windowSleepMs nights
           then jsRound (fmul (fdiv (windowDeepMs nights) (windowSleepMs nights)) 100)
           else 0)
      \<and> (DeepSleepDeficit p \<in> set ps \<longleftrightarrow> p = avgDeepPct s \<and> p < 15)"
    if rep: "sleepTrend nights = Report s ps"
  proof -
    have s: "s = sleepSummaryOf (sleepLoop nights)" and ps: "ps = patternsOf (sleepTrend nights)"
      using rep by (simp_all add: sleepTrend_Report)
    have scored: "perfs nights \<noteq> []"
      using rep by (auto simp: sleepTrend_def Let_def sleep_count split: if_splits)
    have d: "avgDeepPct s
        = (if 0 < windowSleepMs nights
           then jsRound (fmul (fdiv (windowDeepMs nights) (windowSleepMs nights)) 100)
           else 0)"
      unfolding s sleepSummaryOf_def
      by (simp add: stagePct_def totalDeepMs_window totalSleepMs_window)
    have m: "DeepSleepDeficit p \<in> set ps \<longleftrightarrow> p = avgDeepPct s \<and> p < 15"
      unfolding ps sleepTrend_patterns using scored
      by (auto simp: lowPerfRule_def deepSleepRule_def Let_def s)
    show ?thesis using d m by simp
  qed
  have ex: "patternsOf (sleepTrend
        [night (Some 80) None (Some 6000000) None (Some 600000),
         night (Some 80) None (Some 300000) None (Some 0)]) = [DeepSleepDeficit 10]"
    by (simp add: sleep_eval arith_eval)
  show ?thesis using gen ex by blast
qed

text \<open>
  The witness takes a night of 8 hours asleep with exactly 14.5 percent of deep sleep,
  which the numbers of the program turn into 14.499999999999998 and so into 14, and a
  night with no asleep time at all.
\<close>

theorem deep_sleep_deficit_rule_witness:
  "sleepTrend [night (Some 80) None (Some 28800000) (Some 0) (Some 4176000)]
     = Report \<lparr>days = 1, avgSleepH = 8, avgPerf = 80, avgEff = 0, avgConsist = 0,
               avgLightPct = 0, avgDeepPct = 14, avgRemPct = 0\<rparr> [DeepSleepDeficit 14]
   \<and> windowSleepMs [night (Some 80) None (Some 28800000) (Some 0) (Some 4176000)] = 28800000
   \<and> windowDeepMs [night (Some 80) None (Some 28800000) (Some 0) (Some 4176000)] = 4176000
   \<and> jsRound (fmul (fdiv 4176000 28800000) 100) = 14
   \<and> sleepTrend [night (Some 80) None None None (Some 4176000)]
     = Report \<lparr>days = 1, avgSleepH = 0, avgPerf = 80, avgEff = 0, avgConsist = 0,
               avgLightPct = 0, avgDeepPct = 0, avgRemPct = 0\<rparr> [DeepSleepDeficit 0]
   \<and> windowSleepMs [night (Some 80) None None None (Some 4176000)] = 0"
proof -
  have r: "sleepTrend [night (Some 80) None (Some 28800000) (Some 0) (Some 4176000)]
     = Report \<lparr>days = 1, avgSleepH = 8, avgPerf = 80, avgEff = 0, avgConsist = 0,
               avgLightPct = 0, avgDeepPct = 14, avgRemPct = 0\<rparr> [DeepSleepDeficit 14]"
    by (simp add: sleep_eval arith_eval)
  have w: "windowSleepMs [night (Some 80) None (Some 28800000) (Some 0) (Some 4176000)] = 28800000"
    "windowDeepMs [night (Some 80) None (Some 28800000) (Some 0) (Some 4176000)] = 4176000"
    by (simp_all add: window_eval arith_eval)
  have z: "sleepTrend [night (Some 80) None None None (Some 4176000)]
     = Report \<lparr>days = 1, avgSleepH = 0, avgPerf = 80, avgEff = 0, avgConsist = 0,
               avgLightPct = 0, avgDeepPct = 0, avgRemPct = 0\<rparr> [DeepSleepDeficit 0]"
    by (simp add: sleep_eval arith_eval)
  have zw: "windowSleepMs [night (Some 80) None None None (Some 4176000)] = 0"
    by (simp add: window_eval arith_eval)
  have j: "jsRound (fmul (fdiv 4176000 28800000) 100) = 14"
    by (simp add: arith_eval)
  show ?thesis
    using deep_sleep_deficit_rule
        [of "[night (Some 80) None (Some 28800000) (Some 0) (Some 4176000)]"
          "\<lparr>days = 1, avgSleepH = 8, avgPerf = 80, avgEff = 0, avgConsist = 0,
            avgLightPct = 0, avgDeepPct = 14, avgRemPct = 0\<rparr>" "[DeepSleepDeficit 14]" 14]
      deep_sleep_deficit_rule
        [of "[night (Some 80) None None None (Some 4176000)]"
          "\<lparr>days = 1, avgSleepH = 0, avgPerf = 80, avgEff = 0, avgConsist = 0,
            avgLightPct = 0, avgDeepPct = 0, avgRemPct = 0\<rparr>" "[DeepSleepDeficit 0]" 0]
    unfolding r w z zw j by simp
qed

text \<open>
  Claim C2 as stated fails on a night of 8 hours asleep with 14.6 percent of deep sleep:
  the percentage is below 15, the report rounds it to 15 and flags nothing.
\<close>

theorem deep_sleep_deficit_counterexample:
  "windowDeepMs [night (Some 80) None (Some 28800000) (Some 0) (Some 4204800)]
     / windowSleepMs [night (Some 80) None (Some 28800000) (Some 0) (Some 4204800)] * 100 < 15
   \<and> patternsOf (sleepTrend [night (Some 80) None (Some 28800000) (Some 0) (Some 4204800)]) = []"
proof -
  have w: "windowSleepMs [night (Some 80) None (Some 28800000) (Some 0) (Some 4204800)] = 28800000"
    "windowDeepMs [night (Some 80) None (Some 28800000) (Some 0) (Some 4204800)] = 4204800"
    by (simp_all add: window_eval arith_eval)
  have p: "patternsOf (sleepTrend
      [night (Some 80) None (Some 28800000) (Some 0) (Some 4204800)]) = []"
    by (simp add: sleep_eval arith_eval)
  show ?thesis unfolding w p by simp
qed

section \<open>HRV trend\<close>








section \<open>Streak rules\<close>

text \<open>
  Claim C4. The consecutive-low-recovery rule fires exactly when the longest run of
  consecutive scored days with a recovery score below 50 has length at least 3, and the
  number it reports is that longest run over the whole series, whichever run comes
  first. The records come newest first; the longest run is the same in chronological
  order. On the chronological series 80, 40, 30, 20, 90, 45, 40, 35 the rule reports 3.
\<close>

theorem consecutive_low_recovery_rule:
  "(ConsecLow n \<in> set (patternsOf (recoveryTrend records))
      \<longleftrightarrow> n = longestRun (\<lambda>s. s < 50) (recScores records) \<and> 3 \<le> n)
   \<and> longestRun (\<lambda>s. s < 50) (rev (recScores records))
       = longestRun (\<lambda>s. s < 50) (recScores records)
   \<and> consecLowRule (rev [80, 40, 30, 20, 90, 45, 40, 35]) = [ConsecLow 3]"
proof -
  have "consecLowRule (rev [80, 40, 30, 20, 90, 45, 40, 35]) = [ConsecLow 3]"
    by (simp add: consecLowRule_def maxConsec_def)
  then show ?thesis
    by (auto simp: recoveryTrend_patterns lowRecoveryRule_def hrvTrendRule_def consecLowRule_def
        Let_def maxConsec_longestRun longestRun_Nil longestRun_rev)
qed

theorem consecutive_low_recovery_rule_witness:
  "recScores (map recoveryOf [40, 30, 20, 90, 45, 40, 35, 30]) = [40, 30, 20, 90, 45, 40, 35, 30]
   \<and> longestRun (\<lambda>s. s < 50) [40, 30, 20, 90, 45, 40, 35, 30] = 4
   \<and> ConsecLow 4 \<in> set (patternsOf (recoveryTrend (map recoveryOf [40, 30, 20, 90, 45, 40, 35, 30])))"
proof -
  have s: "recScores (map recoveryOf [40, 30, 20, 90, 45, 40, 35, 30])
             = [40, 30, 20, 90, 45, 40, 35, 30]"
    by (simp add: recScores_Cons recScores_Nil recoveryOf_def recoveryDay_def scoreOr_def)
  have l: "longestRun (\<lambda>s. s < 50) [40, 30, 20, 90, 45, 40, 35, 30::real] = 4"
    by (simp add: longestRun_def)
  show ?thesis
    using consecutive_low_recovery_rule [of 4 "map recoveryOf [40, 30, 20, 90, 45, 40, 35, 30]"]
    unfolding s l by simp
qed

text \<open>
  Claim C7. The high-strain streak rule fires exactly when the longest run of
  consecutive scored days with a strain strictly above 14 has length at least 3, and the
  number it reports is that longest run.
\<close>

theorem high_strain_streak_rule:
  "HighStrainStreak n \<in> set (patternsOf (strainTrend cycles workouts))
     \<longleftrightarrow> n = longestRun (\<lambda>s. s > 14) (strains cycles) \<and> 3 \<le> n"
  by (auto simp: strainTrend_patterns noRestRule_def highStrainRule_def Let_def
      maxConsec_longestRun longestRun_Nil)

theorem high_strain_streak_rule_witness:
  "longestRun (\<lambda>s. s > 14) (strains (map cycleDay [15, 16, 14, 17, 18, 15, 20, 9])) = 4
   \<and> HighStrainStreak 4
        \<in> set (patternsOf (strainTrend (map cycleDay [15, 16, 14, 17, 18, 15, 20, 9]) [()]))"
proof -
  have s: "strains (map cycleDay [15, 16, 14, 17, 18, 15, 20, 9]) = [15, 16, 14, 17, 18, 15, 20, 9]"
    by (simp add: strains_Cons strains_Nil cycleDay_def scoreOr_def)
  have l: "longestRun (\<lambda>s. s > 14) [15, 16, 14, 17, 18, 15, 20, 9::real] = 4"
    by (simp add: longestRun_def)
  show ?thesis
    using high_strain_streak_rule [of 4 "map cycleDay [15, 16, 14, 17, 18, 15, 20, 9]" "[()]"]
    unfolding s l by simp
qed

section \<open>Windows without data\<close>

text \<open>
  Claim C5. For a window with no record, or with records none of which carries the
  scored value of the domain, each trend handler returns a one-line informational
  message, which is not a report (so it cannot be mistaken for a summary of zeros) and
  carries no pattern. The handlers are total functions of the records.
\<close>

theorem no_scored_day_message:
  "((\<forall>r\<in>set records. recovery_score (scoreOr noRecoveryScore r) = None) \<longrightarrow>
      recoveryTrend records
        = Message (if records = [] then ''No recovery data available.''
                   else ''No scored recovery data in this range.'')
      \<and> (\<forall>s ps. recoveryTrend records \<noteq> Report s ps)
      \<and> patternsOf (recoveryTrend records) = [])
   \<and> ((\<forall>r\<in>set nights. sleep_performance_percentage (scoreOr noSleepScore r) = None) \<longrightarrow>
      sleepTrend nights
        = Message (if nights = [] then ''No sleep data available.''
                   else ''No scored sleep data in this range.'')
      \<and> (\<forall>s ps. sleepTrend nights \<noteq> Report s ps)
      \<and> patternsOf (sleepTrend nights) = [])
   \<and> ((\<forall>c\<in>set cycles. strain (scoreOr noCycleScore c) = None) \<longrightarrow>
      strainTrend cycles workouts
        = Message (if cycles = [] then ''No strain data available.''
                   else ''No scored cycles in this range.'')
      \<and> (\<forall>s ps. strainTrend cycles workouts \<noteq> Report s ps)
      \<and> patternsOf (strainTrend cycles workouts) = [])"
proof -
  have rec: "recoveryTrend records
        = Message (if records = [] then ''No recovery data available.''
                   else ''No scored recovery data in this range.'')"
    if "\<forall>r\<in>set records. recovery_score (scoreOr noRecoveryScore r) = None"
  proof -
    have "recScores records = []" using that by (simp add: unscored_recScores)
    then have "count (recoveryLoop records) = 0" by (simp add: recovery_count)
    then show ?thesis by (simp add: recoveryTrend_def Let_def)
  qed
  have slp: "sleepTrend nights
        = Message (if nights = [] then ''No sleep data available.''
                   else ''No scored sleep data in this range.'')"
    if "\<forall>r\<in>set nights. sleep_performance_percentage (scoreOr noSleepScore r) = None"
  proof -
    have "perfs nights = []" using that by (simp add: unscored_perfs)
    then have "count (sleepLoop nights) = 0" by (simp add: sleep_count)
    then show ?thesis by (simp add: sleepTrend_def Let_def)
  qed
  have str: "strainTrend cycles workouts
        = Message (if cycles = [] then ''No strain data available.''
                   else ''No scored cycles in this range.'')"
    if "\<forall>c\<in>set cycles. strain (scoreOr noCycleScore c) = None"
  proof -
    have "strains cycles = []" using that by (simp add: unscored_strains)
    then have "count (strainLoop cycles) = 0" by (simp add: strain_count)
    then show ?thesis by (simp add: strainTrend_def Let_def)
  qed
  show ?thesis
    using rec slp str by (metis patternsOf.simps(1) toolOutput.distinct(1))
qed

theorem no_scored_day_message_witness:
  "recoveryTrend [unscoredDay, recoveryDay None (Some 41) (Some 55) None]
     = Message ''No scored recovery data in this range.''
   \<and> sleepTrend [] = Message ''No sleep data available.''
   \<and> strainTrend [unscoredDay] [()] = Message ''No scored cycles in this range.''"
  using no_scored_day_message
    [of "[unscoredDay, recoveryDay None (Some 41) (Some 55) None]" "[]" "[unscoredDay]" "[()]"]
  by (simp add: unscoredDay_def recoveryDay_def scoreOr_def noRecoveryScore_def noCycleScore_def)

section \<open>Count rules\<close>

text \<open>
  Claim C6. The no-rest-days rule fires exactly when no scored day has a strain below 4
  and there are at least 7 scored days; on a window of 5 scored days it never fires.
\<close>

theorem no_rest_days_rule:
  "(NoRestDays \<in> set (patternsOf (strainTrend cycles workouts))
      \<longleftrightarrow> filter (\<lambda>s. s < 4) (strains cycles) = [] \<and> 7 \<le> length (strains cycles))
   \<and> (length (strains cycles) = 5 \<longrightarrow>
        NoRestDays \<notin> set (patternsOf (strainTrend cycles workouts)))"
  by (auto simp: strainTrend_patterns noRestRule_def highStrainRule_def Let_def)

theorem no_rest_days_rule_witness:
  "length (strains (map cycleDay [15, 16, 17, 5, 6])) = 5
   \<and> filter (\<lambda>s. s < 4) (strains (map cycleDay [15, 16, 17, 5, 6])) = []
   \<and> NoRestDays \<notin> set (patternsOf (strainTrend (map cycleDay [15, 16, 17, 5, 6]) [()]))"
  using no_rest_days_rule [of "map cycleDay [15, 16, 17, 5, 6]" "[()]"]
  by (simp add: strains_Cons strains_Nil cycleDay_def scoreOr_def)

text \<open>
  Claim C8. The low-recovery count rule fires exactly when at least 3 scored days have a
  recovery score below 50, the low sleep-performance rule exactly when at least 3 scored
  nights have a performance below 70. Each message carries the number of qualifying days
  and the number of scored days (the loop counter \<^verbatim>\<open>count\<close>), both taken over the same
  list of scored values.
\<close>

theorem low_count_rules:
  "(LowRecoveryCount k n \<in> set (patternsOf (recoveryTrend records))
      \<longleftrightarrow> k = length (filter (\<lambda>r. r < 50) (recScores records))
          \<and> n = length (recScores records) \<and> 3 \<le> k)
   \<and> (LowSleepPerf k n \<in> set (patternsOf (sleepTrend nights))
      \<longleftrightarrow> k = length (filter (\<lambda>p. p < 70) (perfs nights))
          \<and> n = length (perfs nights) \<and> 3 \<le> k)
   \<and> count (recoveryLoop records) = length (recScores records)
   \<and> count (sleepLoop nights) = length (perfs nights)"
  by (auto simp: recoveryTrend_patterns lowRecoveryRule_def hrvTrendRule_def consecLowRule_def
        sleepTrend_patterns lowPerfRule_def deepSleepRule_def Let_def recovery_count sleep_count)

theorem low_count_rules_witness:
  "LowRecoveryCount 3 4 \<in> set (patternsOf (recoveryTrend
      [recoveryOf 49, unscoredDay, recoveryOf 50, recoveryOf 0, recoveryOf 20]))
   \<and> LowSleepPerf 3 4 \<in> set (patternsOf (sleepTrend
      [night (Some 69) None None None None, night None (Some 90) None None None,
       night (Some 70) None None None None, night (Some 0) None None None None,
       night (Some 10) None None None None]))"
  using low_count_rules [of 3 4
      "[recoveryOf 49, unscoredDay, recoveryOf 50, recoveryOf 0, recoveryOf 20]"
      "[night (Some 69) None None None None, night None (Some 90) None None None,
        night (Some 70) None None None None, night (Some 0) None None None None,
        night (Some 10) None None None None]"]
  by (simp add: recScores_Cons recScores_Nil recoveryOf_def recoveryDay_def unscoredDay_def
      perfs_Cons perfs_Nil night_def scoreOr_def noRecoveryScore_def)

section \<open>Zero values\<close>

text \<open>
  Claim C9. A record whose HRV is the number 0 is dropped from the samples of the HRV
  trend rule, as a record with no HRV is, so it does not count towards the 3 samples the
  rule needs; any other HRV value is kept. A record whose recovery score is the number 0
  is a scored day: the loop counts it and takes it into the minimum, and the count rules
  see the score 0.
\<close>

theorem zero_hrv_absent_zero_recovery_present:
  "(hrv_rmssd_milli (scoreOr noRecoveryScore r) = Some 0 \<longrightarrow>
      hrvValues (before @ r # after) = hrvValues before @ hrvValues after)
   \<and> (hrv_rmssd_milli (scoreOr noRecoveryScore r) = None \<longrightarrow>
      hrvValues (before @ r # after) = hrvValues before @ hrvValues after)
   \<and> (hrv_rmssd_milli (scoreOr noRecoveryScore r) = Some h \<and> h \<noteq> 0 \<longrightarrow>
      hrvValues (before @ r # after) = hrvValues before @ h # hrvValues after)
   \<and> (recovery_score (scoreOr noRecoveryScore r) = Some 0 \<longrightarrow>
      recScores (before @ r # after) = recScores before @ 0 # recScores after
      \<and> count (recoveryStep a r) = count a + 1
      \<and> minRec (recoveryStep a r) = (if 0 < minRec a then 0 else minRec a))
   \<and> (recovery_score (scoreOr noRecoveryScore r) = None \<longrightarrow>
      recScores (before @ r # after) = recScores before @ recScores after
      \<and> recoveryStep a r = a)"
  by (simp add: hrvValues_append hrvValues_Cons recScores_append recScores_Cons truthy_def
      recoveryStep_skip recoveryStep_scored)

theorem zero_hrv_absent_zero_recovery_present_witness:
  "hrvValues [hrvOf 40, recoveryDay (Some 0) (Some 0) None None, hrvOf 50] = [40, 50]
   \<and> recScores [hrvOf 40, recoveryDay (Some 0) (Some 0) None None, hrvOf 50] = [60, 0, 60]
   \<and> patternsOf (recoveryTrend [hrvOf 30, recoveryDay (Some 0) (Some 0) None None, hrvOf 80]) = []
   \<and> patternsOf (recoveryTrend [hrvOf 30, recoveryDay (Some 0) (Some (1 / 2)) None None, hrvOf 80])
       = [HrvDown (161 / 4) 30]"
proof -
  have h: "hrvValues [hrvOf v] = [v]" if "v \<noteq> 0" for v
    using that
    by (simp add: hrvValues_Cons hrvValues_Nil hrvOf_def recoveryDay_def scoreOr_def truthy_def)
  have s: "recScores [hrvOf v] = [60]" for v
    by (simp add: recScores_Cons recScores_Nil hrvOf_def recoveryDay_def scoreOr_def)
  have z: "hrv_rmssd_milli (scoreOr noRecoveryScore (recoveryDay (Some 0) (Some 0) None None)) = Some 0"
    "recovery_score (scoreOr noRecoveryScore (recoveryDay (Some 0) (Some 0) None None)) = Some 0"
    by (simp_all add: recoveryDay_def scoreOr_def)
  have 1: "hrvValues [hrvOf 40, recoveryDay (Some 0) (Some 0) None None, hrvOf 50] = [40, 50]"
    "recScores [hrvOf 40, recoveryDay (Some 0) (Some 0) None None, hrvOf 50] = [60, 0, 60]"
    using zero_hrv_absent_zero_recovery_present
      [of "recoveryDay (Some 0) (Some 0) None None" "[hrvOf 40]" "[hrvOf 50]" 1 recoveryInit]
    by (simp_all add: z h s)
  have 2: "patternsOf (recoveryTrend [hrvOf 30, recoveryDay (Some 0) (Some 0) None None, hrvOf 80]) = []"
    by (simp add: recoveryTrend_patterns recScores_Cons recScores_Nil hrvValues_Cons
        hrvValues_Nil hrvOf_def recoveryDay_def scoreOr_def truthy_def
        lowRecoveryRule_def hrvTrendRule_def consecLowRule_def maxConsec_def)
  have 3: "patternsOf (recoveryTrend [hrvOf 30, recoveryDay (Some 0) (Some (1 / 2)) None None, hrvOf 80])
       = [HrvDown (161 / 4) 30]"
    by (simp add: recoveryTrend_patterns recScores_Cons recScores_Nil hrvValues_Cons
        hrvValues_Nil hrvOf_def recoveryDay_def scoreOr_def truthy_def
        lowRecoveryRule_def consecLowRule_def maxConsec_def hrv_eval arith_eval)
  show ?thesis using 1 2 3 by simp
qed

section \<open>Single-night stage percentages\<close>





end
